theory Spec2Isabelle
  imports Complex_Main
begin

section \<open>The LEED calibration pipeline of \<^verbatim>\<open>leed/calc_rprime.py\<close>\<close>

text \<open>
  The theory embeds the clustering, lattice-model and line-fitting functions of
  \<^verbatim>\<open>src/leed/calc_rprime.py\<close>.

  Modelling decisions:
  \<^item> A numpy array of finite floats is a \<open>real list\<close>. Floating-point arithmetic on finite
    values is idealised as arithmetic over the reals, without rounding. \<open>np.pi\<close> is \<open>pi\<close>,
    \<open>x ** 0.5\<close> is \<open>sqrt\<close>, and so is \<open>np.sqrt\<close> on a positive argument.
  \<^item> Every Python exception that the modelled code can raise is a value of \<open>error\<close>;
    a function that may raise returns \<open>error + 'a\<close> with \<open>Inl\<close> the exception.
  \<^item> Where a computation leaves the finite floats the model says so instead of computing
    with the total division and root of the reals. \<open>np.sqrt(150.4 / voltage)\<close> is a finite
    float only for a positive voltage: at 0 the division raises ZeroDivisionError (a Python
    float) or yields inf (a numpy float), below 0 the root is NaN. The value \<open>NonFinite\<close> of
    \<open>error\<close> marks that point; it is no Python exception, and what the program does with
    the inf or NaN from there on is outside the model. The same holds for \<open>np.median\<close> of
    an empty array, which is NaN. In line 54 an entry with \<open>\<bar>sin \<theta>\<bar> \<ge> 1\<close> becomes inf or NaN;
    such an entry is \<open>None\<close>, and \<open>np.polyfit\<close> fails on it.
  \<^item> A function that may return \<open>None\<close> returns an \<open>option\<close>.
  \<^item> \<open>detect\<close>, \<open>get_images_and_voltages\<close> and \<open>cv2.cartToPolar\<close> are external. An image
    is represented by what the pipeline obtains from them: \<open>None\<close> when \<open>detect\<close> returns
    \<open>None\<close>, otherwise the radius and angle arrays, together with the beam voltage.
  \<^item> Plotting (\<open>isplot\<close>) has no influence on the returned value and is left out.
\<close>

datatype error = TypeError | IndexError | ValueError | KeyError | LinAlgError | NonFinite

type_synonym ndarray = "real list"

subsection \<open>Library functions\<close>

text \<open>Boolean-mask indexing \<open>a[mask]\<close>: numpy raises IndexError when the lengths differ.\<close>

definition mask_select :: "'a list \<Rightarrow> bool list \<Rightarrow> error + 'a list" where
  "mask_select arr msk =
     (if length arr \<noteq> length msk then Inl IndexError
      else Inr (map fst (filter snd (zip arr msk))))"

text \<open>\<open>np.insert(a, 0, 0)\<close>.\<close>

definition np_insert0 :: "ndarray \<Rightarrow> ndarray" where
  "np_insert0 a = 0 # a"

text \<open>
  \<open>np.histogram(x, bins=100, range=(0, 500))\<close>: the edges are \<open>np.linspace(0, 500, 101)\<close>,
  bin \<open>j\<close> counts the values in the half-open interval from edge \<open>j\<close> to edge \<open>j + 1\<close>, the last
  bin also contains the upper end 500; values outside the range are not counted.
\<close>

definition bin_edge :: "nat \<Rightarrow> real" where
  "bin_edge j = 5 * real j"

definition in_bin :: "nat \<Rightarrow> real \<Rightarrow> bool" where
  "in_bin j r \<longleftrightarrow> bin_edge j \<le> r \<and> (r < bin_edge (j + 1) \<or> (j = 99 \<and> r \<le> 500))"

definition np_histogram :: "ndarray \<Rightarrow> nat list \<times> real list" where
  "np_histogram x =
     (map (\<lambda>j. length (filter (in_bin j) x)) [0..<100], map bin_edge [0..<101])"

text \<open>The median of a non-empty list: the middle element of the sorted list, or the mean
  of the two middle ones.\<close>

definition median :: "real list \<Rightarrow> real" where
  "median arr =
     (let s = sort arr; n = length s in
      if odd n then s ! (n div 2) else (s ! (n div 2 - 1) + s ! (n div 2)) / 2)"

text \<open>\<open>np.median\<close>. For an empty array numpy returns NaN (the RuntimeWarning is
  suppressed at line 13): \<open>NonFinite\<close>.\<close>

definition np_median :: "ndarray \<Rightarrow> error + real" where
  "np_median arr = (if arr = [] then Inl NonFinite else Inr (median arr))"

text \<open>Python's builtin \<open>min\<close> on a sequence: ValueError when it is empty.\<close>

fun py_min :: "real list \<Rightarrow> error + real" where
  "py_min [] = Inl ValueError"
| "py_min (t # ts) = Inr (fold min ts t)"

text \<open>Indexing a Python list, raising IndexError out of range.\<close>

definition py_index :: "'a list \<Rightarrow> nat \<Rightarrow> error + 'a" where
  "py_index l j = (if j < length l then Inr (l ! j) else Inl IndexError)"

text \<open>Floor division \<open>//\<close> of floats.\<close>

definition floor_divide :: "real \<Rightarrow> real \<Rightarrow> real" where
  "floor_divide p q = of_int \<lfloor>p / q\<rfloor>"

text \<open>\<open>itertools.combinations(l, 2)\<close>: all index pairs \<open>i < j\<close> in lexicographic order.\<close>

fun combinations2 :: "'a list \<Rightarrow> ('a \<times> 'a) list" where
  "combinations2 [] = []"
| "combinations2 (t # ts) = map (Pair t) ts @ combinations2 ts"

text \<open>
  \<open>np.polyfit(x, y, 1)\<close>, returning (slope, intercept). numpy solves the least-squares
  problem for the Vandermonde matrix with columns \<open>x\<close> and \<open>1\<close>, each column scaled to unit
  norm, by \<open>lstsq\<close>:
  \<^item> an empty \<open>x\<close> and arrays of different lengths raise TypeError;
  \<^item> when the abscissae are not all equal the matrix has full rank and the solution is the
    one of the normal equations;
  \<^item> when all abscissae are 0 the first column has norm 0, the scaling divides 0 by 0 and
    \<open>lstsq\<close> raises LinAlgError on the NaN matrix;
  \<^item> when all abscissae equal a non-zero \<open>c\<close> the matrix has rank 1 and \<open>lstsq\<close> returns the
    minimum-norm solution of the scaled system, slope \<open>mean y / (2 c)\<close> and intercept
    \<open>mean y / 2\<close> (the RankWarning is suppressed at line 13).
\<close>

definition np_polyfit :: "ndarray \<Rightarrow> ndarray \<Rightarrow> error + real \<times> real" where
  "np_polyfit x y =
     (if length x = 0 then Inl TypeError
      else if length x \<noteq> length y then Inl TypeError
      else
        let n = real (length x);
            sx = sum_list x;
            sy = sum_list y;
            sxx = sum_list (map (\<lambda>u. u * u) x);
            sxy = sum_list (map2 (\<lambda>u v. u * v) x y);
            d = n * sxx - sx * sx
        in if d \<noteq> 0 then Inr ((n * sxy - sx * sy) / d, (sy * sxx - sx * sxy) / d)
           else if hd x = 0 then Inl LinAlgError
           else Inr (sy / n / (2 * hd x), sy / n / 2))"

subsection \<open>\<open>fit_xs_and_sinthetas\<close> (lines 53--64)\<close>

text \<open>Line 54, entry by entry: \<open>s / sqrt (1 - s\<^sup>2)\<close> is a finite float only for \<open>\<bar>s\<bar> < 1\<close>. At
  \<open>\<bar>s\<bar> = 1\<close> numpy divides by 0 and yields inf, beyond it takes the root of a negative number
  and yields NaN; \<open>None\<close> stands for such an entry.\<close>

definition linearize :: "ndarray \<Rightarrow> real option list" where
  "linearize sinthetas =
     map (\<lambda>s. if \<bar>s\<bar> < 1 then Some (s / sqrt (1 - s\<^sup>2)) else None) sinthetas"

text \<open>The entries of an array when all of them are finite.\<close>

definition finite_array :: "real option list \<Rightarrow> ndarray option" where
  "finite_array x = (if None \<in> set x then None else Some (map the x))"

definition outlier_mask :: "real \<Rightarrow> real \<Rightarrow> ndarray \<Rightarrow> ndarray \<Rightarrow> bool list" where
  "outlier_mask rprime intercept x xs =
     map2 (\<lambda>u v. \<bar>rprime * u + intercept - v\<bar> > 50) x xs"

text \<open>Lines 58--61: the arrays handed to the second \<open>np.polyfit\<close>.\<close>

definition remove_outlier :: "real \<Rightarrow> real \<Rightarrow> ndarray \<Rightarrow> ndarray \<Rightarrow> error + ndarray \<times> ndarray" where
  "remove_outlier rprime intercept x xs =
     (let outlier = outlier_mask rprime intercept x xs in
      case mask_select x (map Not outlier) of
        Inl e \<Rightarrow> Inl e
      | Inr xk \<Rightarrow>
          (case mask_select xs (map Not outlier) of
             Inl e \<Rightarrow> Inl e
           | Inr xsk \<Rightarrow> Inr (np_insert0 xk, np_insert0 xsk)))"

text \<open>Lines 54--64. On an array that holds inf or NaN \<open>np.polyfit\<close> checks the lengths and
  then fails in \<open>lstsq\<close>, as it does on all-zero abscissae: the scaled matrix holds NaN.\<close>

definition fit_xs_and_sinthetas :: "ndarray \<Rightarrow> ndarray \<Rightarrow> error + real \<times> real" where
  "fit_xs_and_sinthetas xs sinthetas =
     (let x = linearize sinthetas in
      case finite_array x of
        None \<Rightarrow> (if length x \<noteq> length xs then Inl TypeError else Inl LinAlgError)
      | Some xf \<Rightarrow>
          (case np_polyfit xf xs of
             Inl e \<Rightarrow> Inl e
           | Inr (rprime, intercept) \<Rightarrow>
               (case remove_outlier rprime intercept xf xs of
                  Inl e \<Rightarrow> Inl e
                | Inr (x', xs') \<Rightarrow> np_polyfit x' xs')))"

subsection \<open>\<open>calc_x_and_sintheta\<close> (lines 67--107)\<close>

record base_type =
  kind :: string
  surface :: string

definition a :: "string \<rightharpoonup> real" where
  "a = [''Cu'' \<mapsto> 3.61496, ''Ag'' \<mapsto> 4.0862, ''Au'' \<mapsto> 4.07864]"

definition a_lookup :: "string \<Rightarrow> error + real" where
  "a_lookup k = (case a k of None \<Rightarrow> Inl KeyError | Some v \<Rightarrow> Inr v)"

text \<open>\<open>np.sqrt(150.4 / voltage)\<close> of lines 73, 85 and 106: a finite float for a positive
  voltage only.\<close>

definition wavelength :: "real \<Rightarrow> error + real" where
  "wavelength voltage = (if 0 < voltage then Inr (sqrt (150.4 / voltage)) else Inl NonFinite)"

text \<open>Lines 81--91, the loop over \<open>j\<close> of the Au branch. Falling out of the loop is
  \<open>Inr None\<close>: the function then ends without a \<open>return\<close>.\<close>

fun au_loop :: "real list \<Rightarrow> string \<Rightarrow> ndarray list \<Rightarrow> real list list \<Rightarrow> real \<Rightarrow> nat list
    \<Rightarrow> error + (real \<times> real) option" where
  "au_loop theta_baseline k cluster cluster_theta voltage [] = Inr None"
| "au_loop theta_baseline k cluster cluster_theta voltage (j # js) =
     (case py_min (cluster_theta ! j) of
        Inl e \<Rightarrow> Inl e
      | Inr m \<Rightarrow>
          let error = \<bar>theta_baseline ! 0 - m\<bar> in
          if error < 0.1 then
            (case py_index cluster j of
               Inl e \<Rightarrow> Inl e
             | Inr c \<Rightarrow>
                 (case np_median c of
                    Inl e \<Rightarrow> Inl e
                  | Inr x \<Rightarrow>
                      (case wavelength voltage of
                         Inl e \<Rightarrow> Inl e
                       | Inr lamb \<Rightarrow>
                           let n = floor_divide (x / lamb) 100 + 1 in
                           (case a_lookup k of
                              Inl e \<Rightarrow> Inl e
                            | Inr ak \<Rightarrow>
                                let sintheta = n / (2 * ak) * lamb in
                                if n > 2
                                then au_loop theta_baseline k cluster cluster_theta voltage js
                                else Inr (Some (x, sintheta))))))
          else au_loop theta_baseline k cluster cluster_theta voltage js)"

text \<open>Lines 102--107, the loop over \<open>k\<close> for one \<open>j\<close>; \<open>Inr None\<close> when no slot matches.\<close>

fun slot_loop :: "real list \<Rightarrow> string \<Rightarrow> ndarray list \<Rightarrow> real list list \<Rightarrow> real \<Rightarrow> nat \<Rightarrow> nat list
    \<Rightarrow> error + (real \<times> real) option" where
  "slot_loop theta_baseline kd cluster cluster_theta voltage j [] = Inr None"
| "slot_loop theta_baseline kd cluster cluster_theta voltage j (k # ks) =
     (case py_min (cluster_theta ! j) of
        Inl e \<Rightarrow> Inl e
      | Inr m \<Rightarrow>
          let error = \<bar>theta_baseline ! k - m\<bar> in
          if error < 0.1 then
            let n = (if k = 0 then 1 else sqrt 2) in
            (case wavelength voltage of
               Inl e \<Rightarrow> Inl e
             | Inr lamb \<Rightarrow>
                 (case a_lookup kd of
                    Inl e \<Rightarrow> Inl e
                  | Inr ak \<Rightarrow>
                      let sintheta = n * lamb / ak in
                      (case py_index cluster j of
                         Inl e \<Rightarrow> Inl e
                       | Inr c \<Rightarrow>
                           (case np_median c of
                              Inl e \<Rightarrow> Inl e
                            | Inr x \<Rightarrow> Inr (Some (x, sintheta))))))
          else slot_loop theta_baseline kd cluster cluster_theta voltage j ks)"

text \<open>Lines 99--107, the loop over \<open>j\<close> of the Ag/Cu branch, with its \<open>break\<close>.\<close>

fun other_loop :: "real list \<Rightarrow> string \<Rightarrow> ndarray list \<Rightarrow> real list list \<Rightarrow> real \<Rightarrow> nat list
    \<Rightarrow> error + (real \<times> real) option" where
  "other_loop theta_baseline kd cluster cluster_theta voltage [] = Inr None"
| "other_loop theta_baseline kd cluster cluster_theta voltage (j # js) =
     (if j > 2 then Inr None
      else
        case slot_loop theta_baseline kd cluster cluster_theta voltage j [0..<2] of
          Inl e \<Rightarrow> Inl e
        | Inr (Some r) \<Rightarrow> Inr (Some r)
        | Inr None \<Rightarrow> other_loop theta_baseline kd cluster cluster_theta voltage js)"

text \<open>\<open>if theta_baseline[k] == 100: theta_baseline[k] = min(cluster_theta[k])\<close>.\<close>

definition set_baseline :: "real list \<Rightarrow> real list list \<Rightarrow> nat \<Rightarrow> error + real list" where
  "set_baseline theta_baseline cluster_theta k =
     (if theta_baseline ! k = 100 then
        (case py_index cluster_theta k of
           Inl e \<Rightarrow> Inl e
         | Inr t \<Rightarrow>
             (case py_min t of
                Inl e \<Rightarrow> Inl e
              | Inr m \<Rightarrow> Inr (theta_baseline[k := m])))
      else Inr theta_baseline)"

definition calc_x_and_sintheta ::
    "ndarray \<Rightarrow> ndarray \<Rightarrow> base_type \<Rightarrow> ndarray list \<Rightarrow> real list list \<Rightarrow> real
     \<Rightarrow> error + (real \<times> real) option" where
  "calc_x_and_sintheta xs sinthetas base_type cluster cluster_theta voltage =
     (let theta_baseline = [100, 100] in
      if surface base_type = ''111'' then
        (case a_lookup (kind base_type) of
           Inl e \<Rightarrow> Inl e
         | Inr ak \<Rightarrow>
             let theoretical_d = (ak / sqrt 2) * sqrt 3 / 2 in
             (case wavelength voltage of
                Inl e \<Rightarrow> Inl e
              | Inr lamb \<Rightarrow>
                  let sintheta = lamb / theoretical_d in
                  (case py_index cluster 0 of
                     Inl e \<Rightarrow> Inl e
                   | Inr c \<Rightarrow>
                       (case np_median c of
                          Inl e \<Rightarrow> Inl e
                        | Inr x \<Rightarrow> Inr (Some (x, sintheta))))))
      else if surface base_type = ''110'' then
        (if kind base_type = ''Au'' then
           (case set_baseline theta_baseline cluster_theta 0 of
              Inl e \<Rightarrow> Inl e
            | Inr tb \<Rightarrow>
                au_loop tb (kind base_type) cluster cluster_theta voltage
                  [0..<length cluster_theta])
         else
           (case set_baseline theta_baseline cluster_theta 0 of
              Inl e \<Rightarrow> Inl e
            | Inr tb0 \<Rightarrow>
                (case (if length cluster_theta > 1 then set_baseline tb0 cluster_theta 1
                       else Inr tb0) of
                   Inl e \<Rightarrow> Inl e
                 | Inr tb \<Rightarrow>
                     other_loop tb (kind base_type) cluster cluster_theta voltage
                       [0..<length cluster_theta])))
      else Inr None)"

subsection \<open>\<open>clustering\<close> (lines 110--147)\<close>

definition delta_bin :: real where
  "delta_bin = 10"

text \<open>Lines 112--117: the non-empty bins, each with its left edge and its count.\<close>

definition bin_freqs_of :: "nat list \<Rightarrow> real list \<Rightarrow> (real \<times> nat) list" where
  "bin_freqs_of freq bins =
     map (\<lambda>j. (bins ! j, freq ! j)) (filter (\<lambda>j. freq ! j \<noteq> 0) [0..<100])"

definition nonempty_bins :: "ndarray \<Rightarrow> (real \<times> nat) list" where
  "nonempty_bins x = (case np_histogram x of (freq, bins) \<Rightarrow> bin_freqs_of freq bins)"

record walk_state =
  cluster :: "ndarray list"
  cluster_theta :: "real list list"
  prev_bin :: real
  start :: real

text \<open>Lines 124--133, the body of the loop over the non-empty bins.\<close>

definition walk_step ::
    "ndarray \<Rightarrow> ndarray \<Rightarrow> (real \<times> nat) list \<Rightarrow> nat \<Rightarrow> walk_state \<Rightarrow> error + walk_state" where
  "walk_step x theta bin_freqs j s =
     (let current_bin = fst (bin_freqs ! j) in
      if current_bin > prev_bin s + delta_bin \<or> j = length bin_freqs - 1 then
        (if j \<noteq> 0 then
           let end = (if j = length bin_freqs - 1 then current_bin
                      else fst (bin_freqs ! (j - 1)));
               x_range = map (\<lambda>r. r \<ge> start s \<and> r \<le> end + delta_bin) x
           in (case mask_select x x_range of
                 Inl e \<Rightarrow> Inl e
               | Inr members \<Rightarrow>
                   if length members > 1 then
                     (case mask_select theta x_range of
                        Inl e \<Rightarrow> Inl e
                      | Inr angles \<Rightarrow>
                          Inr (s\<lparr>cluster := cluster s @ [members],
                                 cluster_theta := cluster_theta s @ [angles],
                                 prev_bin := current_bin, start := current_bin\<rparr>))
                   else Inr (s\<lparr>prev_bin := current_bin, start := current_bin\<rparr>))
         else Inr (s\<lparr>prev_bin := current_bin, start := current_bin\<rparr>))
      else Inr (s\<lparr>prev_bin := current_bin\<rparr>))"

fun walk ::
    "ndarray \<Rightarrow> ndarray \<Rightarrow> (real \<times> nat) list \<Rightarrow> nat list \<Rightarrow> walk_state \<Rightarrow> error + walk_state" where
  "walk x theta bin_freqs [] s = Inr s"
| "walk x theta bin_freqs (j # js) s =
     (case walk_step x theta bin_freqs j s of
        Inl e \<Rightarrow> Inl e
      | Inr s' \<Rightarrow> walk x theta bin_freqs js s')"

text \<open>Lines 137--141, the loop over the 2-combinations of one cluster's angles. The state
  is \<open>valid_cluster[j]\<close> and \<open>cluster_theta[j]\<close>; the iterator was built from the angles
  before the loop and is not affected by the assignment.\<close>

fun pair_loop :: "(real \<times> real) list \<Rightarrow> bool \<times> real list \<Rightarrow> bool \<times> real list" where
  "pair_loop [] st = st"
| "pair_loop (k # ks) st =
     (let error = pi - \<bar>fst k - snd k\<bar> in
      if \<bar>error\<bar> < 0.1 then pair_loop ks (True, [fst k, snd k])
      else pair_loop ks st)"

text \<open>Lines 135--147.\<close>

definition mark_valid :: "real list list \<Rightarrow> (bool \<times> real list) list" where
  "mark_valid cts = map (\<lambda>ct. pair_loop (combinations2 ct) (False, ct)) cts"

definition select_valid ::
    "ndarray list \<Rightarrow> real list list \<Rightarrow> (ndarray list \<times> real list list) option" where
  "select_valid cl ct =
     (let marked = mark_valid ct;
          valid_cluster = map fst marked;
          cluster_theta1 = map snd marked;
          cluster2 = map (\<lambda>j. cl ! j) (filter (\<lambda>j. valid_cluster ! j) [0..<length cl]);
          cluster_theta2 = map (\<lambda>j. cluster_theta1 ! j)
                             (filter (\<lambda>j. valid_cluster ! j) [0..<length cluster_theta1])
      in if length cluster2 = 0 then None else Some (cluster2, cluster_theta2))"

definition clustering ::
    "ndarray \<Rightarrow> ndarray \<Rightarrow> error + (ndarray list \<times> real list list) option" where
  "clustering x theta =
     (let bin_freqs = nonempty_bins x in
      case walk x theta bin_freqs [0..<length bin_freqs]
             \<lparr>cluster = [], cluster_theta = [], prev_bin = 0, start = 0\<rparr> of
        Inl e \<Rightarrow> Inl e
      | Inr s \<Rightarrow> Inr (select_valid (cluster s) (cluster_theta s)))"

subsection \<open>\<open>calc_rprime\<close> (lines 150--175)\<close>

type_synonym image = "(ndarray \<times> ndarray) option \<times> real"

text \<open>Lines 156--168. Unpacking \<open>None\<close> at line 166 raises TypeError.\<close>

fun image_loop :: "base_type \<Rightarrow> image list \<Rightarrow> ndarray \<times> ndarray \<Rightarrow> error + ndarray \<times> ndarray" where
  "image_loop base_type [] acc = Inr acc"
| "image_loop base_type ((vector, voltage) # rest) (xs, sinthetas) =
     (case vector of
        None \<Rightarrow> image_loop base_type rest (xs, sinthetas)
      | Some (x, theta) \<Rightarrow>
          (case clustering x theta of
             Inl e \<Rightarrow> Inl e
           | Inr None \<Rightarrow> image_loop base_type rest (xs, sinthetas)
           | Inr (Some (cl, ct)) \<Rightarrow>
               (case calc_x_and_sintheta xs sinthetas base_type cl ct voltage of
                  Inl e \<Rightarrow> Inl e
                | Inr None \<Rightarrow> Inl TypeError
                | Inr (Some (x', sintheta)) \<Rightarrow>
                    image_loop base_type rest (xs @ [x'], sinthetas @ [sintheta]))))"

definition calc_rprime :: "image list \<Rightarrow> base_type \<Rightarrow> error + real" where
  "calc_rprime images base_type =
     (case image_loop base_type images ([0], [0]) of
        Inl e \<Rightarrow> Inl e
      | Inr (xs, sinthetas) \<Rightarrow>
          (case fit_xs_and_sinthetas xs sinthetas of
             Inl e \<Rightarrow> Inl e
           | Inr (rprime, intercept) \<Rightarrow> Inr rprime))"

section \<open>Notions of the specification\<close>

text \<open>The opposition test of the specification: two angles are opposed when their
  distance differs from \<open>\<pi>\<close> by less than 0.1.\<close>

definition opposed :: "real \<times> real \<Rightarrow> bool" where
  "opposed k \<longleftrightarrow> \<bar>pi - \<bar>fst k - snd k\<bar>\<bar> < 0.1"

text \<open>Every candidate cluster has more than one radius and as many angles as radii.\<close>

definition paired :: "walk_state \<Rightarrow> bool" where
  "paired s \<longleftrightarrow>
     list_all2 (\<lambda>c t. 1 < length c \<and> length c = length t) (cluster s) (cluster_theta s)"

text \<open>The sum of squared residuals of the line \<open>v = m u + c\<close> on points \<open>(u, v)\<close>, and what
  it means for a line to be a least-squares fit.\<close>

definition sse :: "(real \<times> real) list \<Rightarrow> real \<Rightarrow> real \<Rightarrow> real" where
  "sse pts m c = sum_list (map (\<lambda>(u, v). (m * u + c - v)\<^sup>2) pts)"

definition least_squares :: "(real \<times> real) list \<Rightarrow> real \<Rightarrow> real \<Rightarrow> bool" where
  "least_squares pts m c \<longleftrightarrow> (\<forall>m' c'. sse pts m c \<le> sse pts m' c')"

definition least_squares_fit :: "(real \<times> real) list \<Rightarrow> error + real \<times> real" where
  "least_squares_fit pts = np_polyfit (map fst pts) (map snd pts)"

text \<open>The two-pass scheme in the words of the specification, on samples \<open>(x, sin \<theta>)\<close>:
  linearise, fit, discard the samples whose residual exceeds 50, put the seed in front,
  fit again.\<close>

definition two_pass_fit :: "(real \<times> real) list \<Rightarrow> error + real \<times> real" where
  "two_pass_fit samples =
     (let pts = map (\<lambda>(x, s). (s / sqrt (1 - s\<^sup>2), x)) samples in
      case least_squares_fit pts of
        Inl e \<Rightarrow> Inl e
      | Inr (r0, c0) \<Rightarrow>
          least_squares_fit ((0, 0) # filter (\<lambda>(u, x). \<not> \<bar>r0 * u + c0 - x\<bar> > 50) pts))"

text \<open>The sums of the normal equations.\<close>

definition S1 :: "(real \<times> real) list \<Rightarrow> real" where
  "S1 pts = sum_list (map fst pts)"

definition S2 :: "(real \<times> real) list \<Rightarrow> real" where
  "S2 pts = sum_list (map (\<lambda>(u, v). u * u) pts)"

definition T1 :: "(real \<times> real) list \<Rightarrow> real" where
  "T1 pts = sum_list (map snd pts)"

definition T2 :: "(real \<times> real) list \<Rightarrow> real" where
  "T2 pts = sum_list (map (\<lambda>(u, v). v * v) pts)"

definition ST :: "(real \<times> real) list \<Rightarrow> real" where
  "ST pts = sum_list (map (\<lambda>(u, v). u * v) pts)"

section \<open>Library functions and loops\<close>

subsection \<open>Minimum, combinations and the loop over pairs\<close>

lemma py_min_eq: "py_min t = (if t = [] then Inl ValueError else Inr (Min (set t)))"
proof (cases t)
  case Nil
  then show ?thesis by simp
next
  case (Cons u us)
  have "fold min us u = Min (set (u # us))" by (rule Min.set_eq_fold [symmetric])
  with Cons show ?thesis by simp
qed

lemma set_combinations2:
  "set (combinations2 ts) = {(ts ! p, ts ! q) | p q. p < q \<and> q < length ts}"
proof (induction ts)
  case Nil
  then show ?case by simp
next
  case (Cons t ts)
  have "{((t # ts) ! p, (t # ts) ! q) | p q. p < q \<and> q < length (t # ts)} =
        Pair t ` set ts \<union> {(ts ! p, ts ! q) | p q. p < q \<and> q < length ts}" (is "?L = ?R")
  proof (rule set_eqI, rule iffI)
    fix z assume "z \<in> ?L"
    then obtain p q where z: "z = ((t # ts) ! p, (t # ts) ! q)" and pq: "p < q" "q < Suc (length ts)"
      by auto
    from pq obtain q' where q': "q = Suc q'" by (cases q) auto
    show "z \<in> ?R"
    proof (cases p)
      case 0
      with z q' pq have "z = (t, ts ! q')" "q' < length ts" by auto
      then show ?thesis by auto
    next
      case (Suc p')
      with z q' pq have "z = (ts ! p', ts ! q')" "p' < q'" "q' < length ts" by auto
      then show ?thesis by blast
    qed
  next
    fix z assume "z \<in> ?R"
    then consider (a) u where "u \<in> set ts" "z = (t, u)"
      | (b) p q where "z = (ts ! p, ts ! q)" "p < q" "q < length ts" by blast
    then show "z \<in> ?L"
    proof cases
      case a
      then obtain i where "i < length ts" "ts ! i = u" by (auto simp: in_set_conv_nth)
      with a have "z = ((t # ts) ! 0, (t # ts) ! Suc i)" "0 < Suc i" "Suc i < length (t # ts)"
        by auto
      then show ?thesis by blast
    next
      case b
      then have "z = ((t # ts) ! Suc p, (t # ts) ! Suc q)" "Suc p < Suc q" "Suc q < length (t # ts)"
        by auto
      then show ?thesis by blast
    qed
  qed
  with Cons show ?case by simp
qed

lemma pair_loop_step:
  "pair_loop (k # ks) st =
     (if opposed k then pair_loop ks (True, [fst k, snd k]) else pair_loop ks st)"
  by (simp add: opposed_def Let_def)

lemma pair_loop_last:
  "pair_loop ks st =
     (if filter opposed ks = [] then st
      else (True, [fst (last (filter opposed ks)), snd (last (filter opposed ks))]))"
proof (induction ks arbitrary: st)
  case Nil
  then show ?case by simp
next
  case (Cons k ks)
  show ?case
    unfolding pair_loop_step using Cons[of "(True, [fst k, snd k])"] Cons[of st] by simp
qed

subsection \<open>The shape of the clusters\<close>

lemma mask_select_length:
  "mask_select xs m = Inr r \<Longrightarrow> mask_select ys m = Inr r' \<Longrightarrow> length r = length r'"
proof -
  have *: "length zs = length m \<Longrightarrow> length (filter snd (zip zs m)) = length (filter (\<lambda>b. b) m)"
    for zs :: "'c list"
    by (induction zs m rule: list_induct2) auto
  assume "mask_select xs m = Inr r" "mask_select ys m = Inr r'"
  then have "length xs = length m" "length ys = length m"
    "r = map fst (filter snd (zip xs m))" "r' = map fst (filter snd (zip ys m))"
    by (auto simp: mask_select_def split: if_splits)
  then show ?thesis using *[of xs] *[of ys] by simp
qed

lemma walk_step_paired:
  assumes "walk_step x theta bf j s = Inr s'" and "paired s"
  shows "paired s'"
proof -
  have "list_all2 (\<lambda>c t. 1 < length c \<and> length c = length t)
          (cluster s @ [members]) (cluster_theta s @ [angles])"
    if "mask_select x m = Inr members" "mask_select theta m = Inr angles" "1 < length members"
    for m members angles
    using that assms(2) mask_select_length[OF that(1) that(2)]
    by (auto simp: paired_def intro!: list_all2_appendI)
  then show ?thesis
    using assms unfolding walk_step_def Let_def paired_def
    by (auto split: if_splits sum.splits)
qed

lemma walk_paired:
  "walk x theta bf js s = Inr s' \<Longrightarrow> paired s \<Longrightarrow> paired s'"
proof (induction js arbitrary: s)
  case Nil
  then show ?case by simp
next
  case (Cons j js)
  then show ?case
    by (auto split: sum.splits dest: walk_step_paired)
qed

lemma mark_valid_nth:
  assumes "j < length ct" and "fst (mark_valid ct ! j)"
  shows "length (snd (mark_valid ct ! j)) = 2"
proof -
  have m: "mark_valid ct ! j = pair_loop (combinations2 (ct ! j)) (False, ct ! j)"
    using assms(1) by (simp add: mark_valid_def)
  show ?thesis
    using assms(2) unfolding m pair_loop_last [of "combinations2 (ct ! j)"]
    by (simp split: if_splits)
qed

lemma select_valid_shape:
  assumes "select_valid cl ct = Some (cl2, ct2)"
    and "list_all2 (\<lambda>c t. 1 < length c \<and> length c = length t) cl ct"
  shows "cl2 \<noteq> [] \<and> list_all2 (\<lambda>c t. 2 \<le> length c \<and> length t = 2) cl2 ct2"
proof -
  let ?v = "map fst (mark_valid ct)"
  let ?js = "filter (\<lambda>j. ?v ! j) [0..<length cl]"
  have len: "length cl = length ct" using assms(2) by (rule list_all2_lengthD)
  have lm: "length (mark_valid ct) = length ct" by (simp add: mark_valid_def)
  have cl2: "cl2 = map (\<lambda>j. cl ! j) ?js" and ct2: "ct2 = map (\<lambda>j. map snd (mark_valid ct) ! j) ?js"
    and ne: "cl2 \<noteq> []"
    using assms(1) len lm by (auto simp: select_valid_def Let_def split: if_splits)
  have "2 \<le> length (cl ! j) \<and> length (map snd (mark_valid ct) ! j) = 2" if "j \<in> set ?js" for j
  proof -
    from that have j: "j < length cl" and v: "?v ! j" by auto
    from j assms(2) have "1 < length (cl ! j)" by (auto simp: list_all2_conv_all_nth)
    moreover have "length (snd (mark_valid ct ! j)) = 2"
      using mark_valid_nth[of j ct] j v len lm by simp
    ultimately show ?thesis using j len lm by simp
  qed
  then have "list_all2 (\<lambda>c t. 2 \<le> length c \<and> length t = 2) cl2 ct2"
    unfolding cl2 ct2 by (simp add: list_all2_map1 list_all2_map2 list_all2_same)
  with ne show ?thesis by simp
qed

lemma clustering_shape:
  assumes "clustering x theta = Inr (Some (cl, ct))"
  shows "cl \<noteq> [] \<and> list_all2 (\<lambda>c t. 2 \<le> length c \<and> length t = 2) cl ct"
proof -
  let ?s0 = "\<lparr>cluster = [], cluster_theta = [], prev_bin = 0, start = 0\<rparr>"
  from assms obtain s where w: "walk x theta (nonempty_bins x) [0..<length (nonempty_bins x)] ?s0 = Inr s"
    and sv: "select_valid (cluster s) (cluster_theta s) = Some (cl, ct)"
    by (auto simp: clustering_def Let_def split: sum.splits)
  have "paired ?s0" by (simp add: paired_def)
  with w have "paired s" by (rule walk_paired)
  with sv show ?thesis unfolding paired_def by (rule select_valid_shape)
qed

subsection \<open>Least squares\<close>

lemma sse_expand:
  "sse pts m c = m\<^sup>2 * S2 pts + 2 * m * c * S1 pts + real (length pts) * c\<^sup>2
                 - 2 * m * ST pts - 2 * c * T1 pts + T2 pts"
  unfolding sse_def S1_def S2_def T1_def T2_def ST_def
  by (induction pts) (auto simp: algebra_simps power2_eq_square)

lemma quad_nonneg:
  "0 \<le> p\<^sup>2 * S2 pts + 2 * p * q * S1 pts + real (length pts) * q\<^sup>2"
proof -
  have "sum_list (map (\<lambda>(u, v). (p * u + q)\<^sup>2) pts)
          = p\<^sup>2 * S2 pts + 2 * p * q * S1 pts + real (length pts) * q\<^sup>2"
    unfolding S1_def S2_def
    by (induction pts) (auto simp: algebra_simps power2_eq_square)
  moreover have "0 \<le> sum_list (map (\<lambda>(u, v). (p * u + q)\<^sup>2) pts)"
    by (rule sum_list_nonneg) auto
  ultimately show ?thesis by simp
qed

lemma normal_equations_least_squares:
  assumes "m * S2 pts + c * S1 pts = ST pts"
    and "m * S1 pts + real (length pts) * c = T1 pts"
  shows "least_squares pts m c"
  unfolding least_squares_def
proof (intro allI)
  fix m' c'
  have "sse pts m' c' - sse pts m c =
          ((m' - m)\<^sup>2 * S2 pts + 2 * (m' - m) * (c' - c) * S1 pts + real (length pts) * (c' - c)\<^sup>2)
          + 2 * (m' - m) * (m * S2 pts + c * S1 pts - ST pts)
          + 2 * (c' - c) * (m * S1 pts + real (length pts) * c - T1 pts)"
    unfolding sse_expand by (simp add: algebra_simps power2_eq_square)
  also have "\<dots> = (m' - m)\<^sup>2 * S2 pts + 2 * (m' - m) * (c' - c) * S1 pts
                    + real (length pts) * (c' - c)\<^sup>2"
    using assms by simp
  finally show "sse pts m c \<le> sse pts m' c'"
    using quad_nonneg[of "m' - m" pts "c' - c"] by linarith
qed

lemma np_polyfit_sums:
  "np_polyfit (map fst pts) (map snd pts) =
     (if pts = [] then Inl TypeError
      else if real (length pts) * S2 pts - S1 pts * S1 pts \<noteq> 0 then
        Inr ((real (length pts) * ST pts - S1 pts * T1 pts)
               / (real (length pts) * S2 pts - S1 pts * S1 pts),
             (T1 pts * S2 pts - S1 pts * ST pts)
               / (real (length pts) * S2 pts - S1 pts * S1 pts))
      else if fst (hd pts) = 0 then Inl LinAlgError
      else Inr (T1 pts / real (length pts) / (2 * fst (hd pts)), T1 pts / real (length pts) / 2))"
proof -
  have a: "sum_list (map (\<lambda>u. u * u) (map fst pts)) = S2 pts"
    unfolding S2_def by (induction pts) auto
  have b: "sum_list (map2 (\<lambda>u v. u * v) (map fst pts) (map snd pts)) = ST pts"
    unfolding ST_def by (induction pts) auto
  show ?thesis
    unfolding np_polyfit_def Let_def a b
    by (simp add: S1_def T1_def hd_map)
qed

lemma constant_sums:
  assumes "\<forall>p \<in> set pts. fst p = h"
  shows "S1 pts = real (length pts) * h" and "S2 pts = real (length pts) * (h * h)"
    and "ST pts = h * T1 pts"
  using assms unfolding S1_def S2_def ST_def T1_def
  by (induction pts) (auto simp: algebra_simps)

lemma rank_deficient_constant:
  assumes "pts \<noteq> []" and "real (length pts) * S2 pts - S1 pts * S1 pts = 0"
  shows "\<forall>p \<in> set pts. fst p = fst (hd pts)"
proof -
  define n where "n = real (length pts)"
  define c0 where "c0 = S1 pts / n"
  have n: "0 < n" using assms(1) by (simp add: n_def)
  have "sum_list (map (\<lambda>p. (fst p - k)\<^sup>2) pts) = S2 pts - 2 * k * S1 pts + real (length pts) * k\<^sup>2" for k
    unfolding S1_def S2_def by (induction pts) (auto simp: algebra_simps power2_eq_square)
  then have "sum_list (map (\<lambda>p. (fst p - c0)\<^sup>2) pts) = S2 pts - 2 * c0 * S1 pts + n * c0\<^sup>2"
    unfolding n_def .
  moreover have "n * (S2 pts - 2 * c0 * S1 pts + n * c0\<^sup>2) = n * S2 pts - S1 pts * S1 pts"
    using n unfolding c0_def by (simp add: field_simps power2_eq_square)
  ultimately have "n * sum_list (map (\<lambda>p. (fst p - c0)\<^sup>2) pts) = n * S2 pts - S1 pts * S1 pts"
    by simp
  with assms(2) n have z: "sum_list (map (\<lambda>p. (fst p - c0)\<^sup>2) pts) = 0"
    by (simp add: n_def)
  have "\<forall>y \<in> set (map (\<lambda>p. (fst p - c0)\<^sup>2) pts). y = 0"
    by (rule iffD1 [OF sum_list_nonneg_eq_0_iff z]) auto
  then have all: "\<forall>p \<in> set pts. fst p = c0" by auto
  moreover have "hd pts \<in> set pts" using assms(1) by simp
  ultimately show ?thesis by metis
qed

lemma np_polyfit_least_squares:
  assumes "np_polyfit (map fst pts) (map snd pts) = Inr (m, c)"
  shows "least_squares pts m c"
proof -
  define n where "n = real (length pts)"
  define d where "d = n * S2 pts - S1 pts * S1 pts"
  from assms have ne: "pts \<noteq> []"
    unfolding np_polyfit_sums by (auto split: if_splits)
  then have n: "0 < n" by (simp add: n_def)
  show ?thesis
  proof (cases "d = 0")
    case False
    with assms ne have m: "m = (n * ST pts - S1 pts * T1 pts) / d"
      and c: "c = (T1 pts * S2 pts - S1 pts * ST pts) / d"
      unfolding np_polyfit_sums d_def n_def by (auto split: if_splits)
    from m c False have dm: "d * m = n * ST pts - S1 pts * T1 pts"
      and dc: "d * c = T1 pts * S2 pts - S1 pts * ST pts" by simp_all
    have "d * (m * S2 pts + c * S1 pts) = (d * m) * S2 pts + (d * c) * S1 pts"
      by (simp add: algebra_simps)
    also have "\<dots> = (n * ST pts - S1 pts * T1 pts) * S2 pts
                      + (T1 pts * S2 pts - S1 pts * ST pts) * S1 pts"
      by (simp only: dm dc)
    also have "\<dots> = d * ST pts"
      by (simp add: d_def algebra_simps)
    finally have e1: "m * S2 pts + c * S1 pts = ST pts" using False by simp
    have "d * (m * S1 pts + n * c) = (d * m) * S1 pts + n * (d * c)"
      by (simp add: algebra_simps)
    also have "\<dots> = (n * ST pts - S1 pts * T1 pts) * S1 pts
                      + n * (T1 pts * S2 pts - S1 pts * ST pts)"
      by (simp only: dm dc)
    also have "\<dots> = d * T1 pts"
      by (simp add: d_def algebra_simps)
    finally have e2: "m * S1 pts + n * c = T1 pts" using False by simp
    from e1 e2 show ?thesis
      by (intro normal_equations_least_squares) (simp_all add: n_def)
  next
    case True
    let ?h = "fst (hd pts)"
    from True assms ne have h: "?h \<noteq> 0" and m: "m = T1 pts / n / (2 * ?h)" and c: "c = T1 pts / n / 2"
      unfolding np_polyfit_sums d_def n_def by (auto split: if_splits)
    have "\<forall>p \<in> set pts. fst p = ?h"
      using ne True unfolding d_def n_def by (rule rank_deficient_constant)
    note s = constant_sums[OF this, folded n_def]
    have "m * S2 pts + c * S1 pts = ST pts"
      unfolding s m c using h n by (simp add: field_simps)
    moreover have "m * S1 pts + n * c = T1 pts"
      unfolding s m c using h n by (simp add: field_simps)
    ultimately show ?thesis
      by (intro normal_equations_least_squares) (simp_all add: n_def)
  qed
qed

lemma np_polyfit_returns_iff:
  "(\<exists>r. np_polyfit (map fst pts) (map snd pts) = Inr r) \<longleftrightarrow> (\<exists>p \<in> set pts. fst p \<noteq> 0)"
proof (cases "pts = []")
  case True
  then show ?thesis by (simp add: np_polyfit_def)
next
  case ne: False
  show ?thesis
  proof (cases "real (length pts) * S2 pts - S1 pts * S1 pts = 0")
    case True
    with ne have all: "\<forall>p \<in> set pts. fst p = fst (hd pts)" by (rule rank_deficient_constant)
    have "hd pts \<in> set pts" using ne by simp
    with all have "(\<exists>p \<in> set pts. fst p \<noteq> 0) \<longleftrightarrow> fst (hd pts) \<noteq> 0" by metis
    with True ne show ?thesis by (simp add: np_polyfit_sums)
  next
    case False
    have "\<exists>p \<in> set pts. fst p \<noteq> 0"
    proof (rule ccontr)
      assume "\<not> ?thesis"
      then have "\<forall>p \<in> set pts. fst p = 0" by simp
      from constant_sums[OF this] False show False by simp
    qed
    with False ne show ?thesis by (simp add: np_polyfit_sums)
  qed
qed

subsection \<open>The two passes of the fit\<close>

lemma mask_select_map2:
  assumes "length x = length xs"
  shows "mask_select x (map Not (map2 f x xs)) =
           Inr (map fst (filter (\<lambda>(u, v). \<not> f u v) (zip x xs)))"
    and "mask_select xs (map Not (map2 f x xs)) =
           Inr (map snd (filter (\<lambda>(u, v). \<not> f u v) (zip x xs)))"
proof -
  have "map fst (filter snd (zip x (map Not (map2 f x xs))))
          = map fst (filter (\<lambda>(u, v). \<not> f u v) (zip x xs))"
    using assms by (induction x xs rule: list_induct2) auto
  moreover have "map fst (filter snd (zip xs (map Not (map2 f x xs))))
          = map snd (filter (\<lambda>(u, v). \<not> f u v) (zip x xs))"
    using assms by (induction x xs rule: list_induct2) auto
  ultimately show "mask_select x (map Not (map2 f x xs)) =
           Inr (map fst (filter (\<lambda>(u, v). \<not> f u v) (zip x xs)))"
    and "mask_select xs (map Not (map2 f x xs)) =
           Inr (map snd (filter (\<lambda>(u, v). \<not> f u v) (zip x xs)))"
    using assms by (simp_all add: mask_select_def)
qed

lemma remove_outlier_filter:
  assumes "length x = length xs"
  shows "remove_outlier r c x xs =
           Inr (0 # map fst (filter (\<lambda>(u, v). \<not> \<bar>r * u + c - v\<bar> > 50) (zip x xs)),
                0 # map snd (filter (\<lambda>(u, v). \<not> \<bar>r * u + c - v\<bar> > 50) (zip x xs)))"
  by (simp only: remove_outlier_def outlier_mask_def Let_def mask_select_map2[OF assms]
        sum.case np_insert0_def)

lemma np_polyfit_length:
  "np_polyfit x y = Inr r \<Longrightarrow> length x = length y"
  by (auto simp: np_polyfit_def split: if_splits)

lemma linearize_finite:
  assumes "\<forall>s \<in> set sinthetas. \<bar>s\<bar> < 1"
  shows "finite_array (linearize sinthetas) = Some (map (\<lambda>s. s / sqrt (1 - s\<^sup>2)) sinthetas)"
proof -
  have "linearize sinthetas = map (\<lambda>s. Some (s / sqrt (1 - s\<^sup>2))) sinthetas"
    using assms by (simp add: linearize_def)
  then show ?thesis by (auto simp: finite_array_def comp_def)
qed

lemma linearize_nonfinite:
  assumes "s \<in> set sinthetas" and "1 \<le> \<bar>s\<bar>"
  shows "finite_array (linearize sinthetas) = None"
proof -
  have "None \<in> set (linearize sinthetas)"
    using assms unfolding linearize_def by (auto simp: image_iff intro!: bexI [of _ s])
  then show ?thesis by (simp add: finite_array_def)
qed

lemma fit_nonfinite:
  assumes "length xs = length sinthetas" and "s \<in> set sinthetas" and "1 \<le> \<bar>s\<bar>"
  shows "fit_xs_and_sinthetas xs sinthetas = Inl LinAlgError"
  using assms(1) linearize_nonfinite [OF assms(2,3)]
  by (simp add: fit_xs_and_sinthetas_def linearize_def)

lemma fit_two_pass:
  assumes "\<forall>s \<in> set sinthetas. \<bar>s\<bar> < 1"
  shows "fit_xs_and_sinthetas xs sinthetas =
     (case np_polyfit (map (\<lambda>s. s / sqrt (1 - s\<^sup>2)) sinthetas) xs of
        Inl e \<Rightarrow> Inl e
      | Inr (r0, c0) \<Rightarrow>
          least_squares_fit
            ((0, 0) # filter (\<lambda>(u, v). \<not> \<bar>r0 * u + c0 - v\<bar> > 50)
                        (zip (map (\<lambda>s. s / sqrt (1 - s\<^sup>2)) sinthetas) xs)))"
proof (cases "np_polyfit (map (\<lambda>s. s / sqrt (1 - s\<^sup>2)) sinthetas) xs")
  case (Inl e)
  then show ?thesis by (simp add: fit_xs_and_sinthetas_def linearize_finite [OF assms])
next
  case (Inr r)
  then have "length (map (\<lambda>s. s / sqrt (1 - s\<^sup>2)) sinthetas) = length xs"
    by (rule np_polyfit_length)
  from remove_outlier_filter[OF this] Inr show ?thesis
    by (simp add: fit_xs_and_sinthetas_def linearize_finite [OF assms] least_squares_fit_def
          Let_def split: prod.splits)
qed

lemma fit_refines:
  assumes "length xs = length sinthetas" and "\<forall>s \<in> set sinthetas. \<bar>s\<bar> < 1"
  shows "fit_xs_and_sinthetas xs sinthetas = two_pass_fit (zip xs sinthetas)"
proof -
  let ?u = "map (\<lambda>s. s / sqrt (1 - s\<^sup>2)) sinthetas"
  have z: "map (\<lambda>(x, s). (s / sqrt (1 - s\<^sup>2), x)) (zip xs sinthetas) = zip ?u xs"
    using assms(1) by (induction xs sinthetas rule: list_induct2) auto
  have f: "map fst (zip ?u xs) = ?u" and s: "map snd (zip ?u xs) = xs"
    using assms(1) by simp_all
  show ?thesis
    unfolding fit_two_pass [OF assms(2)] two_pass_fit_def z Let_def
    by (simp add: least_squares_fit_def f s)
qed


lemma fit_seed_only: "fit_xs_and_sinthetas [0] [0] = Inl LinAlgError"
  by (simp add: fit_xs_and_sinthetas_def linearize_def finite_array_def np_polyfit_def)

lemma polyfit_two_points:
  assumes "u \<noteq> 0"
  shows "np_polyfit [0, u] [0, x] = Inr (x / u, 0)"
proof -
  have d: "2 * (u * u) - u * u = u * u" by simp
  have n: "(2 * (u * x) - u * x) / (u * u) = x / u" using assms by simp
  show ?thesis
    using assms by (simp add: np_polyfit_def Let_def d n)
qed

lemma polyfit_seeded_two_points:
  assumes "u \<noteq> 0"
  shows "np_polyfit [0, 0, u] [0, 0, x] = Inr (x / u, 0)"
proof -
  have d: "3 * (u * u) - u * u = 2 * (u * u)" by simp
  have n: "(3 * (u * x) - u * x) / (2 * (u * u)) = x / u" using assms by simp
  show ?thesis
    using assms by (simp add: np_polyfit_def Let_def d n)
qed

lemma linearize_pos:
  assumes "0 < s" and "s < 1"
  shows "0 < s / sqrt (1 - s\<^sup>2)"
proof -
  have "s\<^sup>2 < 1" using assms by (simp add: power_less_one_iff)
  then have "0 < sqrt (1 - s\<^sup>2)" by simp
  with assms(1) show ?thesis by simp
qed

lemma remove_outlier_two_points:
  assumes "u \<noteq> 0"
  shows "remove_outlier (x / u) 0 [0, u] [0, x] = Inr ([0, 0, u], [0, 0, x])"
  using assms by (simp add: remove_outlier_def outlier_mask_def mask_select_def np_insert0_def)

lemma fit_one_sample:
  assumes "0 < s" and "s < 1"
  shows "fit_xs_and_sinthetas [0, x] [0, s] = Inr (x / (s / sqrt (1 - s\<^sup>2)), 0)"
proof -
  define u where "u = s / sqrt (1 - s\<^sup>2)"
  have "0 < u" unfolding u_def using assms by (rule linearize_pos)
  then have u: "u \<noteq> 0" by simp
  have "\<forall>t \<in> set [0, s]. \<bar>t\<bar> < 1" using assms by simp
  from linearize_finite [OF this] have l: "finite_array (linearize [0, s]) = Some [0, u]"
    by (simp add: u_def)
  show ?thesis
    unfolding fit_xs_and_sinthetas_def l Let_def u_def[symmetric]
    by (simp add: polyfit_two_points[OF u] remove_outlier_two_points[OF u]
          polyfit_seeded_two_points[OF u])
qed

subsection \<open>Concrete clusterings\<close>

lemma bins_250_260: "nonempty_bins [250, 260] = [(250, 1), (260, 1)]"
  by code_simp

lemma bins_250_260_260: "nonempty_bins [250, 260, 260] = [(250, 1), (260, 2)]"
  by code_simp

lemma bins_100_100: "nonempty_bins [100, 100] = [(100, 2)]"
  by code_simp

lemma bins_100_300: "nonempty_bins [100, 100, 300, 300] = [(100, 2), (300, 2)]"
  by code_simp

lemma walk_250_260:
  "walk [250, 260] [t1, t2] [(250, 1), (260, 1)] [0..<length [(250 :: real, 1 :: nat), (260, 1)]]
     \<lparr>cluster = [], cluster_theta = [], prev_bin = 0, start = 0\<rparr> =
   Inr \<lparr>cluster = [[250, 260]], cluster_theta = [[t1, t2]], prev_bin = 260, start = 260\<rparr>"
  by (simp add: upt_rec walk_step_def delta_bin_def mask_select_def)

lemma walk_250_260_260:
  "walk [250, 260, 260] [t1, t2, t3] [(250, 1), (260, 2)] [0..<length [(250 :: real, 1 :: nat), (260, 2)]]
     \<lparr>cluster = [], cluster_theta = [], prev_bin = 0, start = 0\<rparr> =
   Inr \<lparr>cluster = [[250, 260, 260]], cluster_theta = [[t1, t2, t3]], prev_bin = 260, start = 260\<rparr>"
  by (simp add: upt_rec walk_step_def delta_bin_def mask_select_def)

lemma walk_100_100:
  "walk [100, 100] [t1, t2] [(100, 2)] [0..<length [(100 :: real, 2 :: nat)]]
     \<lparr>cluster = [], cluster_theta = [], prev_bin = 0, start = 0\<rparr> =
   Inr \<lparr>cluster = [], cluster_theta = [], prev_bin = 100, start = 100\<rparr>"
  by (simp add: upt_rec walk_step_def delta_bin_def mask_select_def)

lemma walk_100_300:
  "walk [100, 100, 300, 300] [t1, t2, t3, t4] [(100, 2), (300, 2)]
     [0..<length [(100 :: real, 2 :: nat), (300, 2)]]
     \<lparr>cluster = [], cluster_theta = [], prev_bin = 0, start = 0\<rparr> =
   Inr \<lparr>cluster = [[100, 100, 300, 300]], cluster_theta = [[t1, t2, t3, t4]],
        prev_bin = 300, start = 300\<rparr>"
  by (simp add: upt_rec walk_step_def delta_bin_def mask_select_def)

lemma opposed_0_pi: "opposed (0, pi)" and opposed_pi_0: "opposed (pi, 0)"
  and not_opposed_0_0: "\<not> opposed (0, 0)" and not_opposed_pi_pi: "\<not> opposed (pi, pi)"
  and not_opposed_0_1: "\<not> opposed (0, 1)" and not_opposed_pi_1: "\<not> opposed (pi, 1)"
  using pi_ge_two by (simp_all add: opposed_def)

lemma select_one_pair: "select_valid [c] [[0, pi]] = Some ([c], [[0, pi]])"
  by (simp add: select_valid_def mark_valid_def pair_loop_step opposed_0_pi
        del: pair_loop.simps(2))

lemma select_three: "select_valid [c] [[0, pi, 1]] = Some ([c], [[0, pi]])"
  by (simp add: select_valid_def mark_valid_def pair_loop_step opposed_0_pi not_opposed_0_1
        not_opposed_pi_1 del: pair_loop.simps(2))

lemma select_four: "select_valid [c] [[0, pi, 0, pi]] = Some ([c], [[0, pi]])"
  by (simp add: select_valid_def mark_valid_def pair_loop_step opposed_0_pi opposed_pi_0
        not_opposed_0_0 not_opposed_pi_pi del: pair_loop.simps(2))

lemma clustering_250_260:
  "clustering [250, 260] [0, pi] = Inr (Some ([[250, 260]], [[0, pi]]))"
  unfolding clustering_def Let_def bins_250_260 walk_250_260
  by (simp add: select_one_pair)

lemma clustering_250_260_260:
  "clustering [250, 260, 260] [0, pi, 1] = Inr (Some ([[250, 260, 260]], [[0, pi]]))"
  unfolding clustering_def Let_def bins_250_260_260 walk_250_260_260
  by (simp add: select_three)

lemma clustering_100_100: "clustering [100, 100] [0, pi] = Inr None"
  unfolding clustering_def Let_def bins_100_100 walk_100_100
  by (simp add: select_valid_def mark_valid_def)

lemma clustering_100_300:
  "clustering [100, 100, 300, 300] [0, pi, 0, pi] = Inr (Some ([[100, 100, 300, 300]], [[0, pi]]))"
  unfolding clustering_def Let_def bins_100_300 walk_100_300
  by (simp add: select_four)

subsection \<open>The loops of the lattice model\<close>

lemma a_values:
  "a_lookup ''Cu'' = Inr 3.61496" "a_lookup ''Ag'' = Inr 4.0862" "a_lookup ''Au'' = Inr 4.07864"
  by (simp_all add: a_lookup_def a_def)

lemma set_baseline_0:
  assumes "ct \<noteq> []" and "ct ! 0 \<noteq> []"
  shows "set_baseline [100, 100] ct 0 = Inr [Min (set (ct ! 0)), 100]"
  using assms by (simp add: set_baseline_def py_index_def py_min_eq)

lemma wavelength_pos: "0 < v \<Longrightarrow> wavelength v = Inr (sqrt (150.4 / v))"
  by (simp add: wavelength_def)

lemma au_loop_find:
  assumes "\<forall>j \<in> set js. j < length cl \<and> j < length ct \<and> ct ! j \<noteq> [] \<and> cl ! j \<noteq> []"
    and v: "0 < v"
  shows "au_loop tb ''Au'' cl ct v js =
     (case find (\<lambda>j. \<bar>tb ! 0 - Min (set (ct ! j))\<bar> < 0.1 \<and>
                      of_int \<lfloor>median (cl ! j) / sqrt (150.4 / v) / 100\<rfloor> + 1 \<le> (2 :: real)) js of
        None \<Rightarrow> Inr None
      | Some j \<Rightarrow>
          Inr (Some (median (cl ! j),
                     (of_int \<lfloor>median (cl ! j) / sqrt (150.4 / v) / 100\<rfloor> + 1)
                       * sqrt (150.4 / v) / (2 * 4.07864))))"
  using assms(1)
proof (induction js)
  case Nil
  then show ?case by simp
next
  case (Cons j js)
  then have j: "j < length cl" "j < length ct" "ct ! j \<noteq> []" "cl ! j \<noteq> []" by simp_all
  from Cons have IH: "au_loop tb ''Au'' cl ct v js =
     (case find (\<lambda>j. \<bar>tb ! 0 - Min (set (ct ! j))\<bar> < 0.1 \<and>
                      of_int \<lfloor>median (cl ! j) / sqrt (150.4 / v) / 100\<rfloor> + 1 \<le> (2 :: real)) js of
        None \<Rightarrow> Inr None
      | Some j \<Rightarrow>
          Inr (Some (median (cl ! j),
                     (of_int \<lfloor>median (cl ! j) / sqrt (150.4 / v) / 100\<rfloor> + 1)
                       * sqrt (150.4 / v) / (2 * 4.07864))))"
    by simp
  show ?case
    using j
    by (simp add: IH py_min_eq py_index_def a_values floor_divide_def Let_def not_le
          wavelength_pos [OF v] np_median_def)
qed

lemma slot_loop_first:
  assumes "ct \<noteq> []" and "ct ! 0 \<noteq> []" and "cl \<noteq> []" and "a_lookup kd = Inr ak"
    and "tb ! 0 = Min (set (ct ! 0))" and "0 < v" and "cl ! 0 \<noteq> []"
  shows "slot_loop tb kd cl ct v 0 [0..<2] = Inr (Some (median (cl ! 0), sqrt (150.4 / v) / ak))"
proof -
  have "[0..<2] = 0 # [1..<2]" by (simp add: upt_rec)
  then show ?thesis
    using assms by (simp add: py_min_eq py_index_def wavelength_def np_median_def)
qed

lemma other_loop_first:
  assumes "ct \<noteq> []" and "ct ! 0 \<noteq> []" and "cl \<noteq> []" and "a_lookup kd = Inr ak"
    and "tb ! 0 = Min (set (ct ! 0))" and "0 < v" and "cl ! 0 \<noteq> []"
  shows "other_loop tb kd cl ct v [0..<length ct]
           = Inr (Some (median (cl ! 0), sqrt (150.4 / v) / ak))"
proof -
  have js: "[0..<length ct] = 0 # [1..<length ct]" using assms(1) by (simp add: upt_rec)
  show ?thesis
    unfolding js other_loop.simps slot_loop_first[OF assms] by simp
qed

subsection \<open>Concrete samples\<close>

lemma median_250_260: "median [250, 260] = 255"
  by (simp add: median_def)

lemma np_median_nonempty: "c \<noteq> [] \<Longrightarrow> np_median c = Inr (median c)"
  by (simp add: np_median_def)

lemma calc_au_order_3:
  "calc_x_and_sintheta xs ss \<lparr>kind = ''Au'', surface = ''110''\<rparr> [[250, 260]] [[0, pi]] 150.4
     = Inr None"
  by (simp add: calc_x_and_sintheta_def set_baseline_def py_index_def median_250_260
        floor_divide_def a_values wavelength_def np_median_def)

lemma calc_au_order_2:
  "calc_x_and_sintheta xs ss \<lparr>kind = ''Au'', surface = ''110''\<rparr> [[250, 260]] [[0, pi]] 37.6
     = Inr (Some (255, 2 * 2 / (2 * 4.07864)))"
proof -
  have f: "\<lfloor>(51 :: real) / 40\<rfloor> = 1" by linarith
  show ?thesis
    by (simp add: calc_x_and_sintheta_def set_baseline_def py_index_def median_250_260
          floor_divide_def a_values f wavelength_def np_median_def)
qed

lemma calc_ag:
  "calc_x_and_sintheta xs ss \<lparr>kind = ''Ag'', surface = ''110''\<rparr> [[250, 260]] [[0, pi]] 150.4
     = Inr (Some (255, 1 / 4.0862))"
  by (simp add: calc_x_and_sintheta_def set_baseline_def py_index_def median_250_260
        a_values upt_rec wavelength_def np_median_def)

lemma loop_au_bad:
  "image_loop \<lparr>kind = ''Au'', surface = ''110''\<rparr>
     ((Some ([250, 260], [0, pi]), 150.4) # rest) ([0], [0]) = Inl TypeError"
  using calc_au_order_3[of "[0]" "[0]"] by (simp add: clustering_250_260)

lemma loop_au_good:
  "image_loop \<lparr>kind = ''Au'', surface = ''110''\<rparr>
     [(Some ([250, 260], [0, pi]), 37.6)] ([0], [0]) = Inr ([0, 255], [0, 2 * 2 / (2 * 4.07864)])"
  using calc_au_order_2[of "[0]" "[0]"] by (simp add: clustering_250_260)

lemma loop_ag:
  "image_loop \<lparr>kind = ''Ag'', surface = ''110''\<rparr>
     [(Some ([250, 260], [0, pi]), 150.4)] ([0], [0]) = Inr ([0, 255], [0, 1 / 4.0862])"
  using calc_ag[of "[0]" "[0]"] by (simp add: clustering_250_260)

section \<open>The claims\<close>

subsection \<open>C1: an image whose diffraction order is not resolved\<close>

text \<open>
  C1 states that an image whose clustering succeeds but for which no cluster passes the
  acceptance rules of surface 110 is skipped, and that the remaining images are still
  processed and fitted. The code does not do this. For kind Au, surface 110, the image
  with radii 250 and 260 at angles 0 and \<open>\<pi>\<close> and voltage 150.4 clusters into one valid
  cluster of median 255; the wavelength is 1, the order is 3, the cluster is skipped and
  \<open>calc_x_and_sintheta\<close> ends without a \<open>return\<close>. Line 166 unpacks that \<open>None\<close>, so the
  run ends in a TypeError although the second image alone gives a slope.
\<close>

theorem C1_unresolved_order_raises:
  "clustering [250, 260] [0, pi] = Inr (Some ([[250, 260]], [[0, pi]])) \<and>
   calc_x_and_sintheta [0] [0] \<lparr>kind = ''Au'', surface = ''110''\<rparr> [[250, 260]] [[0, pi]] 150.4
     = Inr None \<and>
   calc_rprime [(Some ([250, 260], [0, pi]), 150.4), (Some ([250, 260], [0, pi]), 37.6)]
     \<lparr>kind = ''Au'', surface = ''110''\<rparr> = Inl TypeError \<and>
   calc_rprime [(Some ([250, 260], [0, pi]), 37.6)] \<lparr>kind = ''Au'', surface = ''110''\<rparr>
     = Inr (255 / ((2 * 2 / (2 * 4.07864)) / sqrt (1 - (2 * 2 / (2 * 4.07864))\<^sup>2)))"
proof -
  have s: "0 < (2 * 2 / (2 * 4.07864) :: real)" "(2 * 2 / (2 * 4.07864) :: real) < 1" by simp_all
  have "calc_rprime [(Some ([250, 260], [0, pi]), 37.6)] \<lparr>kind = ''Au'', surface = ''110''\<rparr>
     = Inr (255 / ((2 * 2 / (2 * 4.07864)) / sqrt (1 - (2 * 2 / (2 * 4.07864))\<^sup>2)))"
    unfolding calc_rprime_def loop_au_good by (simp only: fit_one_sample[OF s] sum.case prod.case)
  moreover have "calc_rprime [(Some ([250, 260], [0, pi]), 150.4), (Some ([250, 260], [0, pi]), 37.6)]
     \<lparr>kind = ''Au'', surface = ''110''\<rparr> = Inl TypeError"
    unfolding calc_rprime_def loop_au_bad by simp
  ultimately show ?thesis
    using clustering_250_260 calc_au_order_3[of "[0]" "[0]"] by simp
qed

subsection \<open>C2: fewer than two usable samples\<close>

text \<open>
  C2 states that a run in which no image or one image yields a sample fails with a
  designated insufficient-data error. The code has no such error and counts nothing. With
  one usable image the seed and the sample are two points, and the pipeline returns the
  slope of the line through them: for kind Ag, surface 110, the image of C1 yields the sample
  \<open>(255, 1 / 4.0862)\<close> and a slope.
\<close>

theorem C2_one_sample_returns_slope:
  "image_loop \<lparr>kind = ''Ag'', surface = ''110''\<rparr>
     [(Some ([250, 260], [0, pi]), 150.4)] ([0], [0]) = Inr ([0, 255], [0, 1 / 4.0862]) \<and>
   calc_rprime [(Some ([250, 260], [0, pi]), 150.4)] \<lparr>kind = ''Ag'', surface = ''110''\<rparr>
     = Inr (255 / ((1 / 4.0862) / sqrt (1 - (1 / 4.0862)\<^sup>2)))"
proof -
  have s: "0 < (1 / 4.0862 :: real)" "(1 / 4.0862 :: real) < 1" by simp_all
  have "calc_rprime [(Some ([250, 260], [0, pi]), 150.4)] \<lparr>kind = ''Ag'', surface = ''110''\<rparr>
     = Inr (255 / ((1 / 4.0862) / sqrt (1 - (1 / 4.0862)\<^sup>2)))"
    unfolding calc_rprime_def loop_ag by (simp only: fit_one_sample[OF s] sum.case prod.case)
  with loop_ag show ?thesis by simp
qed

text \<open>
  C2 as amended: the pipeline checks no sample count. When exactly one image yields a
  sample \<open>(x, s)\<close> with \<open>0 < s < 1\<close>, it returns \<open>x / u\<close> with \<open>u = s / sqrt (1 - s\<^sup>2)\<close>, the slope
  of the line through the seed and the sample. When no image yields a sample, the seed is
  the only point and the first \<open>np.polyfit\<close> fails on it with numpy's LinAlgError.
\<close>

theorem C2_no_sample_count_check:
  "(image_loop base_type images ([0], [0]) = Inr ([0, x], [0, s]) \<and> 0 < s \<and> s < 1 \<longrightarrow>
      calc_rprime images base_type = Inr (x / (s / sqrt (1 - s\<^sup>2)))) \<and>
   (image_loop base_type images ([0], [0]) = Inr ([0], [0]) \<longrightarrow>
      calc_rprime images base_type = Inl LinAlgError)"
  by (simp add: calc_rprime_def fit_one_sample fit_seed_only)

text \<open>Both cases at concrete runs: one usable image, and one image without detection.\<close>

theorem C2_no_sample_count_check_witness:
  "(image_loop \<lparr>kind = ''Ag'', surface = ''110''\<rparr>
      [(Some ([250, 260], [0, pi]), 150.4)] ([0], [0]) = Inr ([0, 255], [0, 1 / 4.0862]) \<and>
    0 < (1 / 4.0862 :: real) \<and> (1 / 4.0862 :: real) < 1 \<and>
    calc_rprime [(Some ([250, 260], [0, pi]), 150.4)] \<lparr>kind = ''Ag'', surface = ''110''\<rparr>
      = Inr (255 / ((1 / 4.0862) / sqrt (1 - (1 / 4.0862)\<^sup>2)))) \<and>
   (image_loop \<lparr>kind = ''Ag'', surface = ''110''\<rparr> [(None, 100)] ([0], [0]) = Inr ([0], [0]) \<and>
    calc_rprime [(None, 100)] \<lparr>kind = ''Ag'', surface = ''110''\<rparr> = Inl LinAlgError)"
proof -
  have h1: "image_loop \<lparr>kind = ''Ag'', surface = ''110''\<rparr>
      [(Some ([250, 260], [0, pi]), 150.4)] ([0], [0]) = Inr ([0, 255], [0, 1 / 4.0862]) \<and>
    0 < (1 / 4.0862 :: real) \<and> (1 / 4.0862 :: real) < 1"
    using loop_ag by simp
  have h2: "image_loop \<lparr>kind = ''Ag'', surface = ''110''\<rparr> [(None, 100)] ([0], [0])
              = Inr ([0], [0])"
    by simp
  note r1 = mp [OF conjunct1 [OF C2_no_sample_count_check] h1]
  note r2 = mp [OF conjunct2 [OF C2_no_sample_count_check] h2]
  from h1 h2 r1 r2 show ?thesis by blast
qed

subsection \<open>C3: the opposition test keeps the last matching pair\<close>

text \<open>
  C3: a cluster is marked valid if and only if two of its angles, at positions \<open>p < q\<close>,
  are opposed, and the angles of a valid cluster are replaced by the last opposed pair in
  the order of \<open>itertools.combinations\<close>.
\<close>

theorem C3_last_opposed_pair:
  "j < length cts \<Longrightarrow>
     (fst (mark_valid cts ! j) \<longleftrightarrow>
        (\<exists>p q. p < q \<and> q < length (cts ! j) \<and> opposed (cts ! j ! p, cts ! j ! q))) \<and>
     (fst (mark_valid cts ! j) \<longrightarrow>
        snd (mark_valid cts ! j) =
          [fst (last (filter opposed (combinations2 (cts ! j)))),
           snd (last (filter opposed (combinations2 (cts ! j))))])"
proof -
  assume j: "j < length cts"
  let ?ms = "filter opposed (combinations2 (cts ! j))"
  have m: "mark_valid cts ! j = pair_loop (combinations2 (cts ! j)) (False, cts ! j)"
    using j by (simp add: mark_valid_def)
  have e: "?ms \<noteq> [] \<longleftrightarrow> (\<exists>p q. p < q \<and> q < length (cts ! j) \<and> opposed (cts ! j ! p, cts ! j ! q))"
  proof -
    have "?ms \<noteq> [] \<longleftrightarrow> (\<exists>k \<in> set (combinations2 (cts ! j)). opposed k)"
      by (simp add: filter_empty_conv)
    also have "\<dots> \<longleftrightarrow> (\<exists>p q. p < q \<and> q < length (cts ! j) \<and> opposed (cts ! j ! p, cts ! j ! q))"
      unfolding set_combinations2 by blast
    finally show ?thesis .
  qed
  show ?thesis
    unfolding m pair_loop_last [of "combinations2 (cts ! j)"] using e by auto
qed

text \<open>The angles 0, \<open>\<pi>\<close>, 0, \<open>\<pi>\<close> hold four opposed pairs; the last one, at positions 2 and 3,
  is kept.\<close>

theorem C3_last_opposed_pair_witness:
  "0 < length [[0, pi, 0, pi]] \<and>
   fst (mark_valid [[0, pi, 0, pi]] ! 0) \<and>
   snd (mark_valid [[0, pi, 0, pi]] ! 0) = [[0, pi, 0, pi] ! 2, [0, pi, 0, pi] ! 3]"
proof -
  have h: "0 < length [[0, pi, 0, pi :: real]]" by simp
  have f: "filter opposed (combinations2 [0, pi, 0, pi]) = [(0, pi), (0, pi), (pi, 0), (0, pi)]"
    by (simp add: opposed_0_pi opposed_pi_0 not_opposed_0_0 not_opposed_pi_pi)
  have "\<exists>p q. p < q \<and> q < length ([[0, pi, 0, pi]] ! 0) \<and>
          opposed ([[0, pi, 0, pi]] ! 0 ! p, [[0, pi, 0, pi]] ! 0 ! q)"
    by (intro exI [of _ 0] exI [of _ 1]) (simp add: opposed_0_pi)
  with C3_last_opposed_pair [OF h] f show ?thesis by simp
qed

subsection \<open>C4: the walk over the non-empty bins\<close>

text \<open>
  C4 describes the histogram walk and states that every group of at least two radii
  separated from the rest by more than the gap threshold forms a cluster. The walk closes a
  cluster only at a bin other than the first one (\<open>j != 0\<close>) and, at the last bin, always
  up to and including that bin. So two radii in one bin, the only group of the image, form
  no cluster at all, and two groups 200 apart, the second one in the last bin, end up in
  one cluster.
\<close>

theorem C4_last_group_not_separated:
  "clustering [100, 100] [0, pi] = Inr None \<and>
   clustering [100, 100, 300, 300] [0, pi, 0, pi]
     = Inr (Some ([[100, 100, 300, 300]], [[0, pi]]))"
  using clustering_100_100 clustering_100_300 by simp

subsection \<open>C5: kind Au, surface 110\<close>

text \<open>
  C5: for kind Au and surface 110 the result is that of the first cluster, in order, whose
  minimum angle is within 0.1 of the reference angle (the minimum angle of the first
  cluster) and whose order \<open>n = (x / \<lambda>) // 100 + 1\<close> is at most 2, with \<open>x\<close> its median radius
  and \<open>\<lambda> = sqrt (150.4 / voltage)\<close>; the sample is \<open>(x, n \<lambda> / (2 a))\<close>. Clusters that do not
  match or have \<open>n > 2\<close> are passed over; when none is left the function returns \<open>None\<close>.
  The hypotheses on the clusters (as many clusters as angle sequences, none of them empty)
  hold for every cluster list that \<open>clustering\<close> returns; the voltage is positive, so that
  \<open>\<lambda>\<close> is a finite float.
\<close>

theorem C5_au_110_first_accepted:
  assumes "ct \<noteq> []" and "length cl = length ct" and "\<forall>t \<in> set ct. t \<noteq> []"
    and "\<forall>c \<in> set cl. c \<noteq> []" and "0 < voltage"
  shows "calc_x_and_sintheta xs sinthetas \<lparr>kind = ''Au'', surface = ''110''\<rparr> cl ct voltage =
     (case find (\<lambda>j. \<bar>Min (set (ct ! 0)) - Min (set (ct ! j))\<bar> < 0.1 \<and>
                      of_int \<lfloor>median (cl ! j) / sqrt (150.4 / voltage) / 100\<rfloor> + 1 \<le> (2 :: real))
             [0..<length ct] of
        None \<Rightarrow> Inr None
      | Some j \<Rightarrow>
          Inr (Some (median (cl ! j),
                     (of_int \<lfloor>median (cl ! j) / sqrt (150.4 / voltage) / 100\<rfloor> + 1)
                       * sqrt (150.4 / voltage) / (2 * 4.07864))))"
proof -
  have c0: "ct ! 0 \<noteq> []" using assms(1,3) by (cases ct) auto
  have js: "\<forall>j \<in> set [0..<length ct].
              j < length cl \<and> j < length ct \<and> ct ! j \<noteq> [] \<and> cl ! j \<noteq> []"
    using assms(2,3,4) by simp
  show ?thesis
    unfolding calc_x_and_sintheta_def Let_def
    by (simp add: set_baseline_0[OF assms(1) c0] au_loop_find[OF js assms(5)])
qed

text \<open>Two clusters at voltage 37.6, where \<open>\<lambda> = 2\<close>: the first has median 455 and order 3 and
  is passed over, the second has median 255 and order 2 and gives the sample.\<close>

theorem C5_au_110_first_accepted_witness:
  "calc_x_and_sintheta [0] [0] \<lparr>kind = ''Au'', surface = ''110''\<rparr>
     [[450, 460], [250, 260]] [[0, pi], [0, pi]] 37.6
   = Inr (Some (255, 2 * 2 / (2 * 4.07864)))"
proof -
  have l: "sqrt ((150.4 :: real) / 37.6) = 2" by simp
  have m: "median [450, 460] = 455" "median [250, 260] = 255"
    by (simp_all add: median_def)
  have f: "\<lfloor>(455 :: real) / 2 / 100\<rfloor> = 2" "\<lfloor>(255 :: real) / 2 / 100\<rfloor> = 1" by linarith+
  have "calc_x_and_sintheta [0] [0] \<lparr>kind = ''Au'', surface = ''110''\<rparr>
          [[450, 460], [250, 260]] [[0, pi], [0, pi]] 37.6 =
     (case find (\<lambda>j. \<bar>Min (set ([[0, pi], [0, pi]] ! 0)) - Min (set ([[0, pi], [0, pi]] ! j))\<bar> < 0.1 \<and>
                      of_int \<lfloor>median ([[450, 460], [250, 260]] ! j) / sqrt (150.4 / 37.6) / 100\<rfloor> + 1
                        \<le> (2 :: real))
             [0..<length [[0, pi], [0, pi :: real]]] of
        None \<Rightarrow> Inr None
      | Some j \<Rightarrow>
          Inr (Some (median ([[450, 460], [250, 260]] ! j),
                     (of_int \<lfloor>median ([[450, 460], [250, 260]] ! j) / sqrt (150.4 / 37.6) / 100\<rfloor> + 1)
                       * sqrt (150.4 / 37.6) / (2 * 4.07864))))"
    by (rule C5_au_110_first_accepted) simp_all
  also have "\<dots> = Inr (Some (255, 2 * 2 / (2 * 4.07864)))"
    unfolding l by (simp add: upt_rec m f)
  finally show ?thesis .
qed

subsection \<open>C6: surface 111\<close>

text \<open>
  C6: for surface 111 and each of the three kinds, the result is the median radius of the
  first cluster and \<open>sqrt (150.4 / voltage) / d\<close> with \<open>d = a sqrt 3 / (2 sqrt 2)\<close> and
  \<open>a\<close> the lattice constant of the kind, for every positive voltage and every non-empty
  first cluster. The right-hand side mentions neither the later clusters nor the angles.
\<close>

theorem C6_surface_111_closed_form:
  assumes "cl \<noteq> []"
    and "(k, ak) \<in> {(''Cu'', 3.61496), (''Ag'', 4.0862), (''Au'', 4.07864)}"
    and "0 < voltage" and "hd cl \<noteq> []"
  shows "calc_x_and_sintheta xs sinthetas \<lparr>kind = k, surface = ''111''\<rparr> cl ct voltage =
           Inr (Some (median (hd cl), sqrt (150.4 / voltage) / (ak * sqrt 3 / (2 * sqrt 2))))"
proof -
  from assms(2) have ak: "a_lookup k = Inr ak" by (auto simp: a_values)
  have i: "py_index cl 0 = Inr (hd cl)" using assms(1) by (cases cl) (simp_all add: py_index_def)
  show ?thesis
    unfolding calc_x_and_sintheta_def Let_def
    by (simp add: ak i wavelength_pos [OF assms(3)] np_median_nonempty [OF assms(4)])
qed

theorem C6_surface_111_closed_form_witness:
  "[[250, 260], [400, 410 :: real]] \<noteq> [] \<and>
   (''Cu'', 3.61496 :: real) \<in> {(''Cu'', 3.61496), (''Ag'', 4.0862), (''Au'', 4.07864)} \<and>
   0 < (150.4 :: real) \<and>
   hd [[250, 260], [400, 410 :: real]] \<noteq> [] \<and>
   calc_x_and_sintheta [0] [0] \<lparr>kind = ''Cu'', surface = ''111''\<rparr>
     [[250, 260], [400, 410]] [[0, pi], [0, pi]] 150.4
   = Inr (Some (255, 1 / (3.61496 * sqrt 3 / (2 * sqrt 2))))"
proof -
  have h1: "[[250, 260], [400, 410 :: real]] \<noteq> []" by simp
  have h2: "(''Cu'', 3.61496 :: real) \<in> {(''Cu'', 3.61496), (''Ag'', 4.0862), (''Au'', 4.07864)}"
    by simp
  have h3: "0 < (150.4 :: real)" by simp
  have h4: "hd [[250, 260], [400, 410 :: real]] \<noteq> []" by simp
  have "calc_x_and_sintheta [0] [0] \<lparr>kind = ''Cu'', surface = ''111''\<rparr>
          [[250, 260], [400, 410]] [[0, pi], [0, pi]] 150.4
        = Inr (Some (median (hd [[250, 260], [400, 410]]),
                     sqrt (150.4 / 150.4) / (3.61496 * sqrt 3 / (2 * sqrt 2))))"
    using h1 h2 h3 h4 by (rule C6_surface_111_closed_form)
  then have "calc_x_and_sintheta [0] [0] \<lparr>kind = ''Cu'', surface = ''111''\<rparr>
          [[250, 260], [400, 410]] [[0, pi], [0, pi]] 150.4
        = Inr (Some (255, 1 / (3.61496 * sqrt 3 / (2 * sqrt 2))))"
    by (simp add: median_250_260)
  with h1 h2 h3 h4 show ?thesis by (intro conjI)
qed

subsection \<open>C7: the two-pass fit\<close>

text \<open>
  C7: \<open>fit_xs_and_sinthetas\<close> is the two-pass scheme of the specification. On arrays of
  equal length whose \<open>sin \<theta>\<close> lie strictly between -1 and 1, where \<open>u\<close> is a finite float, the
  mask-based code computes \<open>two_pass_fit\<close>: linearise, fit, keep the samples whose residual
  is not above 50, put \<open>(0, 0)\<close> in front, fit again. Each fit is a least-squares fit: what
  it returns minimises the sum of squared residuals. A fit returns a line exactly when
  some abscissa is not 0. (With an entry \<open>\<bar>sin \<theta>\<bar> \<ge> 1\<close> the first \<open>np.polyfit\<close> fails on the inf
  or NaN of line 54, see \<open>fit_nonfinite\<close>.)
\<close>

theorem C7_two_pass_scheme:
  assumes "length xs = length sinthetas" and "\<forall>s \<in> set sinthetas. \<bar>s\<bar> < 1"
  shows "fit_xs_and_sinthetas xs sinthetas = two_pass_fit (zip xs sinthetas) \<and>
         (least_squares_fit pts = Inr (m, c) \<longrightarrow> least_squares pts m c) \<and>
         ((\<exists>r. least_squares_fit pts = Inr r) \<longleftrightarrow> (\<exists>p \<in> set pts. fst p \<noteq> 0))"
  using fit_refines[OF assms] np_polyfit_least_squares[of pts m c] np_polyfit_returns_iff[of pts]
  by (simp add: least_squares_fit_def)

text \<open>The seed with one sample, and the line through \<open>(0, 0)\<close> and \<open>(1, 2)\<close>.\<close>

theorem C7_two_pass_scheme_witness:
  "length [0, 255 :: real] = length [0, 3 / 5 :: real] \<and>
   fit_xs_and_sinthetas [0, 255] [0, 3 / 5] = two_pass_fit (zip [0, 255] [0, 3 / 5]) \<and>
   least_squares_fit [(0, 0), (1, 2)] = Inr (2, 0) \<and>
   least_squares [(0, 0), (1, 2)] 2 0"
proof -
  have h: "length [0, 255 :: real] = length [0, 3 / 5 :: real]" by simp
  have b: "\<forall>s \<in> set [0, 3 / 5 :: real]. \<bar>s\<bar> < 1" by simp
  have p: "least_squares_fit [(0, 0), (1, 2)] = Inr (2, 0)"
    using polyfit_two_points [of 1 2] by (simp add: least_squares_fit_def)
  note t = C7_two_pass_scheme [OF h b, of "[(0, 0), (1, 2)]" 2 0]
  from h p conjunct1 [OF t] mp [OF conjunct1 [OF conjunct2 [OF t]] p]
  show ?thesis by (intro conjI)
qed

subsection \<open>C8: the seed point\<close>



subsection \<open>C9: radii and angles of a returned cluster\<close>

text \<open>
  C9 states that every returned cluster pairs its radii with as many angles. That holds for
  the candidates of the walk, but line 141 replaces the angles of a valid cluster by the
  matching pair: three radii, at 250, 260 and 260, come back with the two angles 0 and
  \<open>\<pi>\<close>.
\<close>

theorem C9_three_radii_two_angles:
  "clustering [250, 260, 260] [0, pi, 1] = Inr (Some ([[250, 260, 260]], [[0, pi]])) \<and>
   length [250, 260, 260 :: real] \<noteq> length [0, pi]"
  using clustering_250_260_260 by simp

text \<open>
  C9 as amended: \<open>clustering\<close> returns as many angle sequences as clusters, at least one;
  every returned cluster has at least 2 radii and exactly 2 angles, so the two lengths agree
  only for a cluster of 2 radii.
\<close>

theorem C9_two_angles_per_cluster:
  assumes "clustering x theta = Inr (Some (cl, ct))"
  shows "cl \<noteq> [] \<and> length cl = length ct \<and>
         (\<forall>j < length cl. 2 \<le> length (cl ! j) \<and> length (ct ! j) = 2)"
  using clustering_shape[OF assms] by (auto simp: list_all2_conv_all_nth)

theorem C9_two_angles_per_cluster_witness:
  "clustering [100, 100, 300, 300] [0, pi, 0, pi]
     = Inr (Some ([[100, 100, 300, 300]], [[0, pi]])) \<and>
   [[100, 100, 300, 300 :: real]] \<noteq> [] \<and>
   length [[100, 100, 300, 300 :: real]] = length [[0, pi]] \<and>
   2 \<le> length ([[100, 100, 300, 300 :: real]] ! 0) \<and>
   length ([[0, pi]] ! 0) = 2"
proof -
  note t = C9_two_angles_per_cluster [OF clustering_100_300]
  have "0 < length [[100, 100, 300, 300 :: real]]" by simp
  with t have "2 \<le> length ([[100, 100, 300, 300 :: real]] ! 0) \<and> length ([[0, pi]] ! 0) = 2"
    by blast
  with clustering_100_300 t show ?thesis by blast
qed

subsection \<open>C10: kinds Ag and Cu, surface 110\<close>

text \<open>
  C10: for kind Ag or Cu and surface 110 the reference angles are set anew in every call,
  so the first cluster matches slot 0 with error 0 and the result is always the median
  radius of the first cluster with \<open>1 \<cdot> sqrt (150.4 / voltage) / a\<close>: the branch for slot 1
  is not reached and the function never returns \<open>None\<close>. The voltage is positive and the
  first cluster is not empty, so that the sample is made of finite floats.
\<close>

theorem C10_ag_cu_first_cluster:
  assumes "(k, ak) \<in> {(''Ag'', 4.0862), (''Cu'', 3.61496)}"
    and "cl \<noteq> []" and "ct \<noteq> []" and "\<forall>t \<in> set ct. t \<noteq> []"
    and "0 < voltage" and "cl ! 0 \<noteq> []"
  shows "calc_x_and_sintheta xs sinthetas \<lparr>kind = k, surface = ''110''\<rparr> cl ct voltage =
           Inr (Some (median (cl ! 0), 1 * sqrt (150.4 / voltage) / ak))"
proof -
  have ak: "a_lookup k = Inr ak" using assms(1) by (auto simp: a_values)
  have k: "k \<noteq> ''Au''" using assms(1) by auto
  have c0: "ct ! 0 \<noteq> []" using assms(3,4) by (cases ct) auto
  have b0: "set_baseline [100, 100] ct 0 = Inr [Min (set (ct ! 0)), 100]"
    using assms(3) c0 by (rule set_baseline_0)
  have ol: "other_loop tb k cl ct voltage [0..<length ct]
              = Inr (Some (median (cl ! 0), sqrt (150.4 / voltage) / ak))"
    if "tb ! 0 = Min (set (ct ! 0))" for tb
    using assms(3) c0 assms(2) ak that assms(5,6) by (rule other_loop_first)
  have e: "calc_x_and_sintheta xs sinthetas \<lparr>kind = k, surface = ''110''\<rparr> cl ct voltage =
        (case (if length ct > 1 then set_baseline [Min (set (ct ! 0)), 100] ct 1
               else Inr [Min (set (ct ! 0)), 100]) of
           Inl e \<Rightarrow> Inl e
         | Inr tb \<Rightarrow> other_loop tb k cl ct voltage [0..<length ct])"
    unfolding calc_x_and_sintheta_def Let_def using k by (simp add: b0 cong: sum.case_cong)
  show ?thesis
  proof (cases "length ct > 1")
    case True
    then have "ct ! 1 \<in> set ct" by simp
    with assms(4) have "ct ! 1 \<noteq> []" by blast
    with True have "set_baseline [Min (set (ct ! 0)), 100] ct 1
                      = Inr [Min (set (ct ! 0)), Min (set (ct ! 1))]"
      by (simp add: set_baseline_def py_index_def py_min_eq)
    with True show ?thesis unfolding e by (simp add: ol)
  next
    case False
    then show ?thesis unfolding e by (simp add: ol)
  qed
qed

text \<open>Two clusters whose minimum angles are 1 apart: the first one is returned.\<close>

theorem C10_ag_cu_first_cluster_witness:
  "calc_x_and_sintheta [0] [0] \<lparr>kind = ''Cu'', surface = ''110''\<rparr>
     [[250, 260], [400, 410]] [[0, pi], [1, 1 + pi]] 150.4
   = Inr (Some (255, 1 / 3.61496))"
proof -
  have "calc_x_and_sintheta [0] [0] \<lparr>kind = ''Cu'', surface = ''110''\<rparr>
          [[250, 260], [400, 410]] [[0, pi], [1, 1 + pi]] 150.4
        = Inr (Some (median ([[250, 260], [400, 410]] ! 0), 1 * sqrt (150.4 / 150.4) / 3.61496))"
    by (rule C10_ag_cu_first_cluster) simp_all
  then show ?thesis by (simp add: median_250_260)
qed

end
